theory Spec2Isabelle
  imports Main "HOL-Library.Char_ord" "HOL-Library.List_Lexorder"
begin

section \<open>Values, query records and the City, Region and Country objects\<close>

text \<open>
  The module \<^verbatim>\<open>geograpy/locator.py\<close> works on values that come out of an SQL store and
  of the pycountry registry. A Python value that reaches the code is \<^verbatim>\<open>None\<close>, a string or
  a number. A query result row is a Python dict from column names to values; it is kept
  as an association list, read with \<open>map_of\<close>.

  The failures are values of \<open>error\<close>: \<^verbatim>\<open>record['x']\<close> with a missing key, an attribute
  read on \<^verbatim>\<open>None\<close> or on an object that lacks it, the \<^verbatim>\<open>OperationalError\<close> of a query that
  names a table or view the store does not have, and the exception \<^verbatim>\<open>SQLDB.createTable\<close>
  raises when it is given no sample record.
\<close>

datatype pyval = PyNone | PyStr string | PyInt int

type_synonym pydict = "(string \<times> pyval) list"

datatype error =
  KeyError string | AttributeError string | OperationalError string | CreateTableError string

record Region =
  Region_name :: pyval
  Region_iso :: pyval

record Country =
  Country_name :: pyval
  Country_iso :: pyval

text \<open>
  A City object. \<^verbatim>\<open>City()\<close> sets no attribute. The attributes \<^verbatim>\<open>population\<close>, \<^verbatim>\<open>gdp\<close>,
  \<^verbatim>\<open>region\<close> and \<^verbatim>\<open>country\<close> are \<open>None\<close> while the object does not have them;
  \<open>Some PyNone\<close> is a \<^verbatim>\<open>population\<close> or \<^verbatim>\<open>gdp\<close> that was assigned \<^verbatim>\<open>None\<close>. The name is
  assigned right after the construction, in \<^verbatim>\<open>fromGeoLite2\<close>: \<open>City_named n\<close> is the
  object after \<^verbatim>\<open>city=City(); city.name=n\<close>.
\<close>

record City =
  City_name :: pyval
  City_population :: "pyval option"
  City_gdp :: "pyval option"
  City_region :: "Region option"
  City_country :: "Country option"

definition City_named :: "pyval \<Rightarrow> City" where
  "City_named n = \<lparr>City_name = n, City_population = None, City_gdp = None,
                   City_region = None, City_country = None\<rparr>"

text \<open>\<^verbatim>\<open>record[key]\<close>: raises KeyError when the key is absent.\<close>

definition getitem :: "pydict \<Rightarrow> string \<Rightarrow> error + pyval" where
  "getitem rcd key = (case map_of rcd key of None \<Rightarrow> Inl (KeyError key) | Some v \<Rightarrow> Inr v)"

text \<open>
  \<^verbatim>\<open>City.setValue(name, record)\<close>: the value is \<^verbatim>\<open>record[name]\<close> when the name is a key of
  the record and \<^verbatim>\<open>None\<close> otherwise; it is stored under the attribute of that name. The
  two names the module uses are \<^verbatim>\<open>population\<close> and \<^verbatim>\<open>gdp\<close>.
\<close>

definition setValue :: "City \<Rightarrow> string \<Rightarrow> pydict \<Rightarrow> City" where
  "setValue city name rcd =
     (let v = (case map_of rcd name of Some x \<Rightarrow> x | None \<Rightarrow> PyNone)
      in if name = ''population'' then city\<lparr>City_population := Some v\<rparr>
         else if name = ''gdp'' then city\<lparr>City_gdp := Some v\<rparr>
         else city)"

definition Region_fromGeoLite2 :: "pydict \<Rightarrow> error + Region" where
  "Region_fromGeoLite2 rcd =
     (case getitem rcd ''regionName'' of
        Inl e \<Rightarrow> Inl e
      | Inr n \<Rightarrow>
          (case getitem rcd ''regionIsoCode'' of
             Inl e \<Rightarrow> Inl e
           | Inr i \<Rightarrow> Inr \<lparr>Region_name = n, Region_iso = i\<rparr>))"

definition Country_fromGeoLite2 :: "pydict \<Rightarrow> error + Country" where
  "Country_fromGeoLite2 rcd =
     (case getitem rcd ''countryName'' of
        Inl e \<Rightarrow> Inl e
      | Inr n \<Rightarrow>
          (case getitem rcd ''countryIsoCode'' of
             Inl e \<Rightarrow> Inl e
           | Inr i \<Rightarrow> Inr \<lparr>Country_name = n, Country_iso = i\<rparr>))"

text \<open>A country of the pycountry registry: its name and its two-letter code.\<close>

record pcountry =
  pc_name :: string
  alpha_2 :: string

definition Country_fromPyCountry :: "pcountry \<Rightarrow> Country" where
  "Country_fromPyCountry pc = \<lparr>Country_name = PyStr (pc_name pc), Country_iso = PyStr (alpha_2 pc)\<rparr>"

definition City_fromGeoLite2 :: "pydict \<Rightarrow> error + City" where
  "City_fromGeoLite2 rcd =
     (case getitem rcd ''name'' of
        Inl e \<Rightarrow> Inl e
      | Inr n \<Rightarrow>
          (let city = City_named n;
               city = setValue city ''population'' rcd;
               city = setValue city ''gdp'' rcd
           in case Region_fromGeoLite2 rcd of
                Inl e \<Rightarrow> Inl e
              | Inr r \<Rightarrow>
                  (case Country_fromGeoLite2 rcd of
                     Inl e \<Rightarrow> Inl e
                   | Inr c \<Rightarrow> Inr (city\<lparr>City_region := Some r, City_country := Some c\<rparr>))))"

section \<open>The ISO code test\<close>

text \<open>
  \<^verbatim>\<open>isISO\<close> is \<^verbatim>\<open>re.search(r"^[0-9A-Z]{1,3}$", s) is not None\<close>. Without the MULTILINE
  flag \<^verbatim>\<open>^\<close> matches at the start of the string only, and \<^verbatim>\<open>$\<close> matches at the end of the
  string and also just before a newline that is the last character of the string. So the
  search succeeds when the string is one to three characters of the class, and also when
  it is such a string followed by one newline.
\<close>

definition iso_char :: "char \<Rightarrow> bool" where
  "iso_char c = (let n = (of_char c :: nat) in (48 \<le> n \<and> n \<le> 57) \<or> (65 \<le> n \<and> n \<le> 90))"

definition iso_shape :: "string \<Rightarrow> bool" where
  "iso_shape w = (1 \<le> length w \<and> length w \<le> 3 \<and> list_all iso_char w)"

definition isISO :: "string \<Rightarrow> bool" where
  "isISO s = (iso_shape s \<or> (s \<noteq> [] \<and> last s = CHR 0x0A \<and> iso_shape (butlast s)))"

section \<open>The tie-break policy\<close>

text \<open>
  The output that \<^verbatim>\<open>disambiguate\<close> prints when \<^verbatim>\<open>debug\<close> is set changes no result and
  is left out.

  The loop \<^verbatim>\<open>for city in cities\<close> of the country rule: the first city whose
  \<^verbatim>\<open>country.iso\<close> equals the iso of the resolved country, \<^verbatim>\<open>None\<close> when there is none.
\<close>

fun country_loop :: "Country \<Rightarrow> City list \<Rightarrow> error + City option" where
  "country_loop country [] = Inr None"
| "country_loop country (city # cities) =
     (case City_country city of
        None \<Rightarrow> Inl (AttributeError ''iso'')
      | Some cc \<Rightarrow>
          if Country_iso cc = Country_iso country then Inr (Some city)
          else country_loop country cities)"

text \<open>
  The inner loop of the region rule, for one region: \<open>foundCity\<close> is overwritten by the
  first city of that region whose region name is not the city's own name.
\<close>

fun region_city_loop :: "Region \<Rightarrow> City list \<Rightarrow> City option \<Rightarrow> error + City option" where
  "region_city_loop region [] foundCity = Inr foundCity"
| "region_city_loop region (city # cities) foundCity =
     (case City_region city of
        None \<Rightarrow> Inl (AttributeError ''iso'')
      | Some cr \<Rightarrow>
          if Region_iso cr = Region_iso region \<and> \<not> Region_name cr = City_name city
          then Inr (Some city)
          else region_city_loop region cities foundCity)"

text \<open>The outer loop over the regions, left as soon as \<open>foundCity\<close> is not \<^verbatim>\<open>None\<close>.\<close>

fun region_loop :: "Region list \<Rightarrow> City list \<Rightarrow> City option \<Rightarrow> error + City option" where
  "region_loop [] cities foundCity = Inr foundCity"
| "region_loop (region # regions) cities foundCity =
     (case region_city_loop region cities foundCity of
        Inl e \<Rightarrow> Inl e
      | Inr f \<Rightarrow> if f \<noteq> None then Inr f else region_loop regions cities f)"

definition disambiguate :: "Country option \<Rightarrow> Region list \<Rightarrow> City list \<Rightarrow> error + City option" where
  "disambiguate country regions cities =
     (if length cities = 1 then Inr (Some (cities ! 0))
      else
        (case (case country of
                 Some c \<Rightarrow> if length cities > 1 then country_loop c cities else Inr None
               | None \<Rightarrow> Inr None) of
           Inl e \<Rightarrow> Inl e
         | Inr foundCity \<Rightarrow>
             if length cities > 1 \<and> length regions > 0
             then region_loop regions cities foundCity
             else Inr foundCity))"

section \<open>The store\<close>

text \<open>
  The SQL store may hold the table \<^verbatim>\<open>cities\<close> of the GeoLite2 rows, the Wikidata tables
  \<^verbatim>\<open>countries\<close>, \<^verbatim>\<open>regions\<close> and \<^verbatim>\<open>City_wikidata\<close>, the derived tables \<^verbatim>\<open>prefixes\<close>
  (prefix, level, count) and \<^verbatim>\<open>ambiguous\<close> (name), and the two lookup views. A table
  that was never created is \<open>None\<close>, and a view is there or not. Of a GeoLite2 row and of
  a Wikidata city row, the columns kept are the ones the module names.

  \<open>ingestions\<close> counts the bulk loads of the GeoLite2 rows that \<^verbatim>\<open>populate_Cities\<close> has
  run on this store; it is the only component that is not data of the store.
\<close>

record geolite_row =
  geoname_id :: pyval
  city_name :: pyval
  subdivision_1_name :: pyval
  subdivision_1_iso_code :: pyval
  country_name :: pyval
  country_iso_code :: pyval

record wikidata_row =
  name :: pyval
  regionLabel :: pyval
  regionIsoCode :: pyval
  countryLabel :: pyval
  countryIsoCode :: pyval
  cityPopulation :: pyval
  countryGDP_perCapita :: pyval

record sqldb =
  cities_table :: "geolite_row list option"
  countries_table :: "pydict list option"
  regions_table :: "pydict list option"
  City_wikidata_table :: "wikidata_row list option"
  prefixes_table :: "(string \<times> int \<times> int) list option"
  ambiguous_table :: "string list option"
  GeoLite2CityLookup_view :: bool
  WikidataCityLookup_view :: bool
  ingestions :: nat

text \<open>
  A Locator: its two settings (\<^verbatim>\<open>correctMisspelling\<close> and the class variable
  \<^verbatim>\<open>useWikiData\<close>) and what it reads from outside \<^verbatim>\<open>locator.py\<close>, each taken as it comes:
  the two lookups of \<^verbatim>\<open>pycountry.countries.get\<close>, the function \<^verbatim>\<open>remove_non_ascii\<close> of
  \<^verbatim>\<open>geograpy.utils\<close>, the rows of \<^verbatim>\<open>ISO3166ErrorDictionary.csv\<close> (variant, iso, canonical
  name), the rows of \<^verbatim>\<open>GeoLite2-City-Locations-en.csv\<close>, the lists Wikidata returns, the
  table of the downloaded \<^verbatim>\<open>City_wikidata.db\<close>, and what \<^verbatim>\<open>store\<close> of a \<^verbatim>\<open>PrefixTree\<close>
  filled with a list of names does: the rows it writes to \<^verbatim>\<open>prefixes\<close>, or the exception
  it raises.
\<close>

record locator =
  correctMisspelling :: bool
  useWikiData :: bool
  countries_get_alpha_2 :: "string \<Rightarrow> pcountry option"
  countries_get_name :: "string \<Rightarrow> pcountry option"
  remove_non_ascii :: "string \<Rightarrow> string"
  ISO3166ErrorDictionary :: "(string \<times> string \<times> string) list"
  GeoLite2_City_Locations :: "geolite_row list"
  wikidata_countryList :: "pydict list"
  wikidata_regionList :: "pydict list"
  City_wikidata_db :: "wikidata_row list"
  PrefixTree_store :: "pyval list \<Rightarrow> error + (string \<times> int \<times> int) list"

subsection \<open>Views and queries\<close>

text \<open>The select lists of the two views, over the rows of their tables.\<close>

definition GeoLite2CityLookup :: "geolite_row list \<Rightarrow> pydict list" where
  "GeoLite2CityLookup rows =
     map (\<lambda>r. [(''name'', city_name r),
                (''regionName'', subdivision_1_name r),
                (''regionIsoCode'', subdivision_1_iso_code r),
                (''countryName'', country_name r),
                (''countryIsoCode'', country_iso_code r)])
         rows"

definition WikidataCityLookup :: "wikidata_row list \<Rightarrow> pydict list" where
  "WikidataCityLookup rows =
     map (\<lambda>r. [(''name'', name r),
                (''regionName'', regionLabel r),
                (''regionIsoCode'', regionIsoCode r),
                (''countryName'', countryLabel r),
                (''countryIsoCode'', countryIsoCode r),
                (''population'', cityPopulation r),
                (''gdp'', countryGDP_perCapita r)])
         rows"

definition getView :: "locator \<Rightarrow> string" where
  "getView L = (if useWikiData L then ''WikidataCityLookup'' else ''GeoLite2CityLookup'')"

text \<open>
  The rows of a view. The query fails when the store has no such view, or has the view
  and not the table it selects from.
\<close>

definition view_rows :: "sqldb \<Rightarrow> string \<Rightarrow> error + pydict list" where
  "view_rows db view =
     (if view = ''WikidataCityLookup'' then
        (if \<not> WikidataCityLookup_view db
         then Inl (OperationalError ''no such table: WikidataCityLookup'')
         else case City_wikidata_table db of
                None \<Rightarrow> Inl (OperationalError ''no such table: main.City_wikidata'')
              | Some rows \<Rightarrow> Inr (WikidataCityLookup rows))
      else
        (if \<not> GeoLite2CityLookup_view db
         then Inl (OperationalError ''no such table: GeoLite2CityLookup'')
         else case cities_table db of
                None \<Rightarrow> Inl (OperationalError ''no such table: main.Cities'')
              | Some rows \<Rightarrow> Inr (GeoLite2CityLookup rows)))"

text \<open>\<^verbatim>\<open>SELECT * FROM view WHERE column = (?)\<close>; a NULL never equals the parameter.\<close>

definition select_where :: "sqldb \<Rightarrow> string \<Rightarrow> string \<Rightarrow> string \<Rightarrow> error + pydict list" where
  "select_where db view columnName placeName =
     (case view_rows db view of
        Inl e \<Rightarrow> Inl e
      | Inr rows \<Rightarrow> Inr (filter (\<lambda>rcd. map_of rcd columnName = Some (PyStr placeName)) rows))"

definition isPrefix :: "sqldb \<Rightarrow> string \<Rightarrow> int \<Rightarrow> error + bool" where
  "isPrefix db nm lvl =
     (case prefixes_table db of
        None \<Rightarrow> Inl (OperationalError ''no such table: prefixes'')
      | Some rows \<Rightarrow> Inr (length (filter (\<lambda>(p, l, c). p = nm \<and> l = lvl) rows) > 0))"

definition isAmbiguousPrefix :: "sqldb \<Rightarrow> string \<Rightarrow> error + bool" where
  "isAmbiguousPrefix db nm =
     (case ambiguous_table db of
        None \<Rightarrow> Inl (OperationalError ''no such table: ambiguous'')
      | Some rows \<Rightarrow> Inr (length (filter (\<lambda>n. n = nm) rows) > 0))"

subsection \<open>Population\<close>

text \<open>\<^verbatim>\<open>db_recordCount\<close>: 0 for a table that is not in the table list.\<close>

definition db_recordCount :: "'a list option \<Rightarrow> nat" where
  "db_recordCount table = (case table of None \<Rightarrow> 0 | Some rows \<Rightarrow> length rows)"

definition db_has_data :: "locator \<Rightarrow> sqldb \<Rightarrow> bool" where
  "db_has_data L db =
     (let hasCities = (db_recordCount (cities_table db) > 10000);
          ok = hasCities
      in if useWikiData L then
           (let hasCountries = (db_recordCount (countries_table db) > 100);
                hasRegions = (db_recordCount (regions_table db) > 1000);
                hasWikidataCities = (db_recordCount (City_wikidata_table db) > 100000)
            in hasCities \<and> hasWikidataCities \<and> hasRegions \<and> hasCountries)
         else ok)"

text \<open>
  \<^verbatim>\<open>SQLDB.createTable(listOfRecords, entityName, ...)\<close> raises when the list of sample
  records is empty, before it touches the store. The rows handed to \<^verbatim>\<open>SQLDB.store\<close> are
  taken to fit the table just created.

  A step of the population returns the exception it raised, if any, and the store as it
  left it: what was written before an exception stays written.
\<close>

definition createTable :: "'a list \<Rightarrow> string \<Rightarrow> error option" where
  "createTable listOfRecords entityName =
     (if listOfRecords = [] then Some (CreateTableError entityName) else None)"

definition then_populate ::
  "error option \<times> sqldb \<Rightarrow> (sqldb \<Rightarrow> error option \<times> sqldb) \<Rightarrow> error option \<times> sqldb" where
  "then_populate r f = (case r of (None, db) \<Rightarrow> f db | (Some e, db) \<Rightarrow> (Some e, db))"

definition populate_Cities :: "locator \<Rightarrow> sqldb \<Rightarrow> error option \<times> sqldb" where
  "populate_Cities L db =
     (let cities = GeoLite2_City_Locations L
      in case createTable (take 100 cities) ''cities'' of
           Some e \<Rightarrow> (Some e, db)
         | None \<Rightarrow>
             (None, db\<lparr>cities_table := Some cities, ingestions := Suc (ingestions db),
                       GeoLite2CityLookup_view := True\<rparr>))"

definition populate_Countries :: "locator \<Rightarrow> sqldb \<Rightarrow> error option \<times> sqldb" where
  "populate_Countries L db =
     (let countryList = wikidata_countryList L
      in case createTable (take 100 countryList) ''countries'' of
           Some e \<Rightarrow> (Some e, db)
         | None \<Rightarrow> (None, db\<lparr>countries_table := Some countryList\<rparr>))"

definition populate_Regions :: "locator \<Rightarrow> sqldb \<Rightarrow> error option \<times> sqldb" where
  "populate_Regions L db =
     (let regionList = wikidata_regionList L
      in case createTable (take 100 regionList) ''regions'' of
           Some e \<Rightarrow> (Some e, db)
         | None \<Rightarrow> (None, db\<lparr>regions_table := Some regionList\<rparr>))"

definition populate_Cities_FromWikidata :: "locator \<Rightarrow> sqldb \<Rightarrow> error option \<times> sqldb" where
  "populate_Cities_FromWikidata L db = (None, db\<lparr>City_wikidata_table := Some (City_wikidata_db L)\<rparr>)"

text \<open>The two statements that drop and create the view \<^verbatim>\<open>WikidataCityLookup\<close>.\<close>

definition create_WikidataCityLookup :: "sqldb \<Rightarrow> error option \<times> sqldb" where
  "create_WikidataCityLookup db = (None, db\<lparr>WikidataCityLookup_view := True\<rparr>)"

text \<open>\<^verbatim>\<open>SELECT name from view\<close>, every name handed to the prefix tree, the tree stored.\<close>

definition populate_PrefixTree :: "locator \<Rightarrow> sqldb \<Rightarrow> error option \<times> sqldb" where
  "populate_PrefixTree L db =
     (case view_rows db (getView L) of
        Inl e \<Rightarrow> (Some e, db)
      | Inr nameRecords \<Rightarrow>
          (let names = map (\<lambda>nameRecord. case map_of nameRecord ''name'' of
                                           Some v \<Rightarrow> v | None \<Rightarrow> PyNone)
                           nameRecords
           in case PrefixTree_store L names of
                Inl e \<Rightarrow> (Some e, db)
              | Inr rows \<Rightarrow> (None, db\<lparr>prefixes_table := Some rows\<rparr>)))"

fun str_values :: "pyval list \<Rightarrow> string list" where
  "str_values [] = []"
| "str_values (PyStr s # vs) = s # str_values vs"
| "str_values (v # vs) = str_values vs"

text \<open>
  \<^verbatim>\<open>SELECT distinct name from view c join prefixes p on c.name=p.prefix order by name\<close>,
  the result handed to \<^verbatim>\<open>createTable\<close> as the sample and stored as the table
  \<^verbatim>\<open>ambiguous\<close>: when no name is a prefix, \<^verbatim>\<open>createTable\<close> raises and the table is not
  created.
\<close>

definition populate_PrefixAmbiguities :: "locator \<Rightarrow> sqldb \<Rightarrow> error option \<times> sqldb" where
  "populate_PrefixAmbiguities L db =
     (case view_rows db (getView L) of
        Inl e \<Rightarrow> (Some e, db)
      | Inr rows \<Rightarrow>
          (case prefixes_table db of
             None \<Rightarrow> (Some (OperationalError ''no such table: prefixes''), db)
           | Some prefixes \<Rightarrow>
               (let names = str_values (map (\<lambda>rcd. case map_of rcd ''name'' of
                                                     Some v \<Rightarrow> v | None \<Rightarrow> PyNone) rows);
                    ambigousPrefixes =
                      sort (remdups (filter (\<lambda>n. n \<in> set (map fst prefixes)) names))
                in case createTable ambigousPrefixes ''ambiguous'' of
                     Some e \<Rightarrow> (Some e, db)
                   | None \<Rightarrow> (None, db\<lparr>ambiguous_table := Some ambigousPrefixes\<rparr>))))"

definition populate_db :: "locator \<Rightarrow> bool \<Rightarrow> sqldb \<Rightarrow> error option \<times> sqldb" where
  "populate_db L force db =
     (if \<not> db_has_data L db \<or> force then
        then_populate
          (then_populate
             (then_populate (populate_Cities L db)
                (\<lambda>db. if useWikiData L then
                        then_populate
                          (then_populate
                             (then_populate (populate_Countries L db) (populate_Regions L))
                             (populate_Cities_FromWikidata L))
                          create_WikidataCityLookup
                      else (None, db)))
             (populate_PrefixTree L))
          (populate_PrefixAmbiguities L)
      else (None, db))"

section \<open>Lookups\<close>

text \<open>
  \<^verbatim>\<open>places_by_name\<close> populates the store when it has no data, then queries the view. The
  store it leaves is returned with the rows; an exception of the population or of the
  query is the result.
\<close>

definition places_by_name ::
  "locator \<Rightarrow> sqldb \<Rightarrow> string \<Rightarrow> string \<Rightarrow> error + (pydict list \<times> sqldb)" where
  "places_by_name L db placeName columnName =
     (case (if \<not> db_has_data L db then populate_db L False db else (None, db)) of
        (Some e, db) \<Rightarrow> Inl e
      | (None, db) \<Rightarrow>
          (let view = getView L
           in case select_where db view columnName placeName of
                Inl e \<Rightarrow> Inl e
              | Inr cities \<Rightarrow> Inr (cities, db)))"

text \<open>The loop \<^verbatim>\<open>for cityRecord in cityRecords: cities.append(City.fromGeoLite2(cityRecord))\<close>.\<close>

fun cities_of_records :: "pydict list \<Rightarrow> City list \<Rightarrow> error + City list" where
  "cities_of_records [] cities = Inr cities"
| "cities_of_records (cityRecord # cityRecords) cities =
     (case City_fromGeoLite2 cityRecord of
        Inl e \<Rightarrow> Inl e
      | Inr city \<Rightarrow> cities_of_records cityRecords (cities @ [city]))"

definition cities_for_name :: "locator \<Rightarrow> sqldb \<Rightarrow> string \<Rightarrow> error + (City list \<times> sqldb)" where
  "cities_for_name L db cityName =
     (case places_by_name L db cityName ''name'' of
        Inl e \<Rightarrow> Inl e
      | Inr (cityRecords, db) \<Rightarrow>
          (case cities_of_records cityRecords [] of
             Inl e \<Rightarrow> Inl e
           | Inr cities \<Rightarrow> Inr (cities, db)))"

fun regions_of_records :: "pydict list \<Rightarrow> Region list \<Rightarrow> error + Region list" where
  "regions_of_records [] regions = Inr regions"
| "regions_of_records (regionRecord # regionRecords) regions =
     (case Region_fromGeoLite2 regionRecord of
        Inl e \<Rightarrow> Inl e
      | Inr region \<Rightarrow> regions_of_records regionRecords (regions @ [region]))"

definition regions_for_name :: "locator \<Rightarrow> sqldb \<Rightarrow> string \<Rightarrow> error + (Region list \<times> sqldb)" where
  "regions_for_name L db region_name =
     (case (if isISO region_name then places_by_name L db region_name ''regionIsoCode''
            else places_by_name L db region_name ''regionName'') of
        Inl e \<Rightarrow> Inl e
      | Inr (regionRecords, db) \<Rightarrow>
          (case regions_of_records regionRecords [] of
             Inl e \<Rightarrow> Inl e
           | Inr regions \<Rightarrow> Inr (regions, db)))"

subsection \<open>Countries\<close>

text \<open>Python's \<^verbatim>\<open>a in b\<close> on strings: \<open>a\<close> occurs in \<open>b\<close> as a contiguous run.\<close>

fun starts_with :: "string \<Rightarrow> string \<Rightarrow> bool" where
  "starts_with [] s = True"
| "starts_with (a # as) [] = False"
| "starts_with (a # as) (b # bs) = (a = b \<and> starts_with as bs)"

fun str_in :: "string \<Rightarrow> string \<Rightarrow> bool" where
  "str_in a [] = (a = [])"
| "str_in a (b # bs) = (starts_with a (b # bs) \<or> str_in a bs)"

text \<open>
  The scan of the rows in \<^verbatim>\<open>correct_country_misspelling\<close>: the third column of the first
  row whose first column, with the non-ASCII characters removed, contains the name.
\<close>

fun correct_rows :: "(string \<Rightarrow> string) \<Rightarrow> (string \<times> string \<times> string) list \<Rightarrow> string \<Rightarrow> string" where
  "correct_rows rm [] nm = nm"
| "correct_rows rm (row # rows) nm =
     (if str_in nm (rm (fst row)) then snd (snd row) else correct_rows rm rows nm)"

definition correct_country_misspelling :: "locator \<Rightarrow> string \<Rightarrow> string" where
  "correct_country_misspelling L nm =
     correct_rows (remove_non_ascii L) (ISO3166ErrorDictionary L) nm"

definition getCountry :: "locator \<Rightarrow> string \<Rightarrow> Country option" where
  "getCountry L nm =
     (let pcountry =
            (if isISO nm then countries_get_alpha_2 L nm
             else
               (let nm = (if correctMisspelling L then correct_country_misspelling L nm else nm)
                in countries_get_name L nm))
      in case pcountry of
           None \<Rightarrow> None
         | Some pc \<Rightarrow> Some (Country_fromPyCountry pc))"

definition is_a_country :: "locator \<Rightarrow> string \<Rightarrow> bool" where
  "is_a_country L nm = (getCountry L nm \<noteq> None)"

section \<open>The token scan\<close>

text \<open>
  The variables of \<^verbatim>\<open>locate\<close> that live across the loop, the store of the Locator, and
  \<open>lookups\<close>: the calls of the three lookups made so far, in order, each with its
  argument. The trace is what the statements about the scan observe.
\<close>

datatype lookup = GetCountry string | CitiesForName string | RegionsForName string

record scan =
  country :: "Country option"
  cities :: "City list"
  regions :: "Region list"
  level :: int
  prefix :: string
  sqlDB :: sqldb
  lookups :: "lookup list"

definition scan_start :: "sqldb \<Rightarrow> scan" where
  "scan_start db = \<lparr>country = None, cities = [], regions = [], level = 1, prefix = [],
                     sqlDB = db, lookups = []\<rparr>"

text \<open>The body of \<^verbatim>\<open>for place in places\<close>. An exception of a query ends it.\<close>

definition locate_body :: "locator \<Rightarrow> scan \<Rightarrow> string \<Rightarrow> error + scan" where
  "locate_body L s place =
     (case isPrefix (sqlDB s) (prefix s @ place) (level s) of
        Inl e \<Rightarrow> Inl e
      | Inr isPrefix' \<Rightarrow>
          (let s = (if \<not> isPrefix' then s\<lparr>prefix := []\<rparr> else s);
               checkPlace = prefix s @ place
           in case (if isPrefix' then isAmbiguousPrefix (sqlDB s) (prefix s @ place)
                    else Inr False) of
                Inl e \<Rightarrow> Inl e
              | Inr isAmbigous \<Rightarrow>
                  (let s = (if isPrefix'
                            then s\<lparr>level := level s + 1, prefix := prefix s @ place @ '' ''\<rparr>
                            else s)
                   in if \<not> isPrefix' \<or> isAmbigous then
                        (let foundCountry = getCountry L checkPlace;
                             s = s\<lparr>lookups := lookups s @ [GetCountry checkPlace]\<rparr>;
                             s = (case foundCountry of
                                    None \<Rightarrow> s
                                  | Some c \<Rightarrow> s\<lparr>country := Some c\<rparr>);
                             s = s\<lparr>lookups := lookups s @ [CitiesForName checkPlace]\<rparr>
                         in case cities_for_name L (sqlDB s) checkPlace of
                              Inl e \<Rightarrow> Inl e
                            | Inr (foundCities, db) \<Rightarrow>
                                (let s = s\<lparr>cities := cities s @ foundCities, sqlDB := db\<rparr>;
                                     s = s\<lparr>lookups := lookups s @ [RegionsForName checkPlace]\<rparr>
                                 in case regions_for_name L (sqlDB s) checkPlace of
                                      Inl e \<Rightarrow> Inl e
                                    | Inr (foundRegions, db) \<Rightarrow>
                                        Inr (s\<lparr>regions := regions s @ foundRegions,
                                               sqlDB := db\<rparr>)))
                      else Inr s)))"

fun locate_loop :: "locator \<Rightarrow> scan \<Rightarrow> string list \<Rightarrow> error + scan" where
  "locate_loop L s [] = Inr s"
| "locate_loop L s (place # places) =
     (case locate_body L s place of
        Inl e \<Rightarrow> Inl e
      | Inr s' \<Rightarrow> locate_loop L s' places)"

text \<open>
  \<^verbatim>\<open>locate\<close> populates the store if it has no data, scans the tokens and disambiguates.
  It returns the city found, or \<^verbatim>\<open>None\<close>; the store it leaves comes with it.
\<close>

definition locate :: "locator \<Rightarrow> sqldb \<Rightarrow> string list \<Rightarrow> error + (City option \<times> sqldb)" where
  "locate L db places =
     (case populate_db L False db of
        (Some e, db) \<Rightarrow> Inl e
      | (None, db) \<Rightarrow>
          (case locate_loop L (scan_start db) places of
             Inl e \<Rightarrow> Inl e
           | Inr s \<Rightarrow>
               (case disambiguate (country s) (regions s) (cities s) of
                  Inl e \<Rightarrow> Inl e
                | Inr foundCity \<Rightarrow> Inr (foundCity, sqlDB s))))"

section \<open>Notions used in the statements\<close>

text \<open>
  A city matches a country when its \<^verbatim>\<open>country.iso\<close> is the country's iso; it matches a
  region when its \<^verbatim>\<open>region.iso\<close> is the region's iso and its region name is not its own
  name. A city is complete when its region and its country are objects, not \<^verbatim>\<open>None\<close>.
\<close>

definition country_match :: "Country \<Rightarrow> City \<Rightarrow> bool" where
  "country_match c city =
     (case City_country city of None \<Rightarrow> False | Some cc \<Rightarrow> Country_iso cc = Country_iso c)"

definition region_match :: "Region \<Rightarrow> City \<Rightarrow> bool" where
  "region_match r city =
     (case City_region city of
        None \<Rightarrow> False
      | Some cr \<Rightarrow> Region_iso cr = Region_iso r \<and> Region_name cr \<noteq> City_name city)"

definition complete_city :: "City \<Rightarrow> bool" where
  "complete_city city = (City_region city \<noteq> None \<and> City_country city \<noteq> None)"

text \<open>A city whose population and gdp were both assigned \<^verbatim>\<open>None\<close>.\<close>

definition no_figures :: "City \<Rightarrow> bool" where
  "no_figures city = (City_population city = Some PyNone \<and> City_gdp city = Some PyNone)"

definition found_cities_ok :: "locator \<Rightarrow> City list \<Rightarrow> bool" where
  "found_cities_ok L cs =
     (list_all complete_city cs \<and> (\<not> useWikiData L \<longrightarrow> list_all no_figures cs))"

text \<open>A query record that has the five columns every lookup view selects.\<close>

definition has_columns :: "pydict \<Rightarrow> bool" where
  "has_columns rcd =
     list_all (\<lambda>k. map_of rcd k \<noteq> None)
       [''name'', ''regionName'', ''regionIsoCode'', ''countryName'', ''countryIsoCode'']"

text \<open>
  The number of tokens of a scan that were classified as prefix continuations: the
  iterations in which \<^verbatim>\<open>isPrefix(prefix+place, level)\<close> was true.
\<close>

fun prefix_hits :: "locator \<Rightarrow> scan \<Rightarrow> string list \<Rightarrow> nat" where
  "prefix_hits L s [] = 0"
| "prefix_hits L s (place # places) =
     (if isPrefix (sqlDB s) (prefix s @ place) (level s) = Inr True then 1 else 0) +
     (case locate_body L s place of Inl e \<Rightarrow> 0 | Inr s' \<Rightarrow> prefix_hits L s' places)"

text \<open>The first row of the misspelling table whose variant, made ASCII, contains the name.\<close>

definition matching_row :: "locator \<Rightarrow> string \<Rightarrow> (string \<times> string \<times> string) option" where
  "matching_row L nm =
     find (\<lambda>row. str_in nm (remove_non_ascii L (fst row))) (ISO3166ErrorDictionary L)"

text \<open>
  The store has what the scan queries: the tables \<^verbatim>\<open>prefixes\<close> and \<^verbatim>\<open>ambiguous\<close> and the
  lookup view with its table. A store is ready for \<^verbatim>\<open>locate\<close> when the population that
  \<^verbatim>\<open>locate\<close> starts with raises nothing and leaves such a store; on a store that has data
  that population does nothing, so then the store itself has the tables.
\<close>

definition tables_exist :: "locator \<Rightarrow> sqldb \<Rightarrow> bool" where
  "tables_exist L db =
     (prefixes_table db \<noteq> None \<and> ambiguous_table db \<noteq> None \<and>
      (case view_rows db (getView L) of Inl e \<Rightarrow> False | Inr rows \<Rightarrow> True))"

definition store_ready :: "locator \<Rightarrow> sqldb \<Rightarrow> bool" where
  "store_ready L db =
     (case populate_db L False db of
        (Some e, db') \<Rightarrow> False
      | (None, db') \<Rightarrow> tables_exist L db')"

text \<open>
  The population heals every store without data: it raises nothing and leaves the
  tables.
\<close>

definition heals :: "locator \<Rightarrow> bool" where
  "heals L =
     (\<forall>db. \<not> db_has_data L db \<longrightarrow>
        (\<exists>db'. populate_db L False db = (None, db') \<and> tables_exist L db'))"

definition scan_ready :: "locator \<Rightarrow> sqldb \<Rightarrow> bool" where
  "scan_ready L db = (tables_exist L db \<and> (db_has_data L db \<or> heals L))"

section \<open>Example data\<close>

definition ex_US :: Country where
  "ex_US = \<lparr>Country_name = PyStr ''United States'', Country_iso = PyStr ''US''\<rparr>"

definition ex_AR :: Region where
  "ex_AR = \<lparr>Region_name = PyStr ''Arkansas'', Region_iso = PyStr ''AR''\<rparr>"

definition ex_TX :: Region where
  "ex_TX = \<lparr>Region_name = PyStr ''Texas'', Region_iso = PyStr ''TX''\<rparr>"

definition ex_CA :: Region where
  "ex_CA = \<lparr>Region_name = PyStr ''California'', Region_iso = PyStr ''CA''\<rparr>"

definition ex_Paris_AR :: City where
  "ex_Paris_AR = \<lparr>City_name = PyStr ''Paris'', City_population = Some PyNone,
                   City_gdp = Some PyNone, City_region = Some ex_AR, City_country = Some ex_US\<rparr>"

definition ex_Paris_TX :: City where
  "ex_Paris_TX = \<lparr>City_name = PyStr ''Paris'', City_population = Some PyNone,
                   City_gdp = Some PyNone, City_region = Some ex_TX, City_country = Some ex_US\<rparr>"

definition ex_row :: "string \<Rightarrow> string \<Rightarrow> string \<Rightarrow> string \<Rightarrow> string \<Rightarrow> string \<Rightarrow> geolite_row" where
  "ex_row gid cn sn si ctn ci =
     \<lparr>geoname_id = PyStr gid, city_name = PyStr cn, subdivision_1_name = PyStr sn,
      subdivision_1_iso_code = PyStr si, country_name = PyStr ctn, country_iso_code = PyStr ci\<rparr>"

text \<open>
  A GeoLite2 file of 10005 rows with distinct ids: five cities, one of them named San, and
  10000 rows of places named Los Angeles.
\<close>

function ex_decimal :: "nat \<Rightarrow> string" where
  "ex_decimal n =
     (if n < 10 then [char_of (48 + n)]
      else ex_decimal (n div 10) @ [char_of (48 + n mod 10)])"
  by pat_completeness auto
termination
  by (relation "measure id") auto

definition ex_rows :: "geolite_row list" where
  "ex_rows =
     ex_row ''2761369'' ''Vienna'' ''Vienna'' ''9'' ''Austria'' ''AT'' #
     ex_row ''4125402'' ''Paris'' ''Arkansas'' ''AR'' ''United States'' ''US'' #
     ex_row ''4717560'' ''Paris'' ''Texas'' ''TX'' ''United States'' ''US'' #
     ex_row ''2451185'' ''San'' ''Segou'' ''4'' ''Mali'' ''ML'' #
     ex_row ''5391959'' ''San Francisco'' ''California'' ''CA'' ''United States'' ''US'' #
     map (\<lambda>i. ex_row (ex_decimal (6000000 + i)) ''Los Angeles'' ''California'' ''CA''
                  ''United States'' ''US'')
         [0..<10000]"

definition ex_ascii :: "string \<Rightarrow> string" where
  "ex_ascii s = filter (\<lambda>c. (of_char c :: nat) < 128) s"

definition ex_prefixes :: "(string \<times> int \<times> int) list" where
  "ex_prefixes = [(''Los'', 1, 10000), (''San'', 1, 1)]"

definition ex_locator :: locator where
  "ex_locator =
     \<lparr>correctMisspelling = True,
      useWikiData = False,
      countries_get_alpha_2 =
        (\<lambda>s. if s = ''US'' then Some \<lparr>pc_name = ''United States'', alpha_2 = ''US''\<rparr> else None),
      countries_get_name =
        (\<lambda>s. if s = ''Germany'' then Some \<lparr>pc_name = ''Germany'', alpha_2 = ''DE''\<rparr> else None),
      remove_non_ascii = ex_ascii,
      ISO3166ErrorDictionary = [(''Deutschland'', ''DE'', ''Germany'')],
      GeoLite2_City_Locations = ex_rows,
      wikidata_countryList = [],
      wikidata_regionList = [],
      City_wikidata_db = [],
      PrefixTree_store = (\<lambda>names. Inr ex_prefixes)\<rparr>"

text \<open>
  A store nothing was written to, the store the population makes of it, and a store
  with the data and without the table \<^verbatim>\<open>ambiguous\<close>.
\<close>

definition ex_empty_db :: sqldb where
  "ex_empty_db =
     \<lparr>cities_table = None, countries_table = None, regions_table = None,
      City_wikidata_table = None, prefixes_table = None, ambiguous_table = None,
      GeoLite2CityLookup_view = False, WikidataCityLookup_view = False, ingestions = 0\<rparr>"

definition ex_db :: sqldb where
  "ex_db =
     \<lparr>cities_table = Some ex_rows, countries_table = None, regions_table = None,
      City_wikidata_table = None, prefixes_table = Some ex_prefixes,
      ambiguous_table = Some [''San''],
      GeoLite2CityLookup_view = True, WikidataCityLookup_view = False, ingestions = 1\<rparr>"

definition ex_unready_db :: sqldb where
  "ex_unready_db = ex_db\<lparr>ambiguous_table := None\<rparr>"

definition ex_Vienna :: City where
  "ex_Vienna =
     \<lparr>City_name = PyStr ''Vienna'', City_population = Some PyNone, City_gdp = Some PyNone,
      City_region = Some \<lparr>Region_name = PyStr ''Vienna'', Region_iso = PyStr ''9''\<rparr>,
      City_country = Some \<lparr>Country_name = PyStr ''Austria'', Country_iso = PyStr ''AT''\<rparr>\<rparr>"

text \<open>The row of Vienna as the view gives it, and three states of a scan.\<close>

definition d_Vienna :: pydict where
  "d_Vienna = [(''name'', PyStr ''Vienna''), (''regionName'', PyStr ''Vienna''),
     (''regionIsoCode'', PyStr ''9''), (''countryName'', PyStr ''Austria''),
     (''countryIsoCode'', PyStr ''AT'')]"

definition ex_scan_Los :: scan where
  "ex_scan_Los = \<lparr>country = None, cities = [], regions = [], level = 2, prefix = ''Los '',
                   sqlDB = ex_db, lookups = []\<rparr>"

definition ex_scan_Los_Xyz :: scan where
  "ex_scan_Los_Xyz =
     \<lparr>country = None, cities = [], regions = [], level = 2, prefix = [], sqlDB = ex_db,
      lookups = [GetCountry ''Xyz'', CitiesForName ''Xyz'', RegionsForName ''Xyz'']\<rparr>"

definition ex_scan_Vienna :: scan where
  "ex_scan_Vienna =
     \<lparr>country = None, cities = [ex_Vienna],
      regions = [\<lparr>Region_name = PyStr ''Vienna'', Region_iso = PyStr ''9''\<rparr>],
      level = 1, prefix = [], sqlDB = ex_db,
      lookups = [GetCountry ''Vienna'', CitiesForName ''Vienna'', RegionsForName ''Vienna'']\<rparr>"



section \<open>The tie-break policy: results\<close>

lemma country_loop_find:
  "list_all complete_city cs \<Longrightarrow> country_loop c cs = Inr (find (country_match c) cs)"
  by (induction cs) (auto simp: complete_city_def country_match_def)

lemma region_city_loop_find:
  "list_all complete_city cs \<Longrightarrow>
   region_city_loop r cs f = Inr (case find (region_match r) cs of Some y \<Rightarrow> Some y | None \<Rightarrow> f)"
  by (induction cs) (auto simp: complete_city_def region_match_def)

lemma region_loop_found:
  "list_all complete_city cs \<Longrightarrow>
   region_loop (r # rs) cs (Some x) =
     Inr (case find (region_match r) cs of Some y \<Rightarrow> Some y | None \<Rightarrow> Some x)"
  by (simp add: region_city_loop_find split: option.splits)

lemma region_loop_result:
  "list_all complete_city cs \<Longrightarrow>
   \<exists>r. region_loop rs cs f = Inr r \<and> (r = f \<or> r \<in> Some ` set cs)"
proof (induction rs)
  case Nil
  then show ?case by simp
next
  case (Cons a rs)
  then show ?case
    by (auto simp: region_city_loop_find split: option.splits dest: find_Some_iff[THEN iffD1])
qed

lemma disambiguate_with_country:
  assumes wf: "list_all complete_city cs" and len: "length cs > 1"
    and fnd: "find (country_match c) cs = Some x"
  shows "disambiguate (Some c) rs cs =
     Inr (Some (case rs of [] \<Rightarrow> x
                | r # _ \<Rightarrow> (case find (region_match r) cs of Some y \<Rightarrow> y | None \<Rightarrow> x)))"
proof (cases rs)
  case Nil
  with len fnd wf show ?thesis
    by (simp add: disambiguate_def country_loop_find)
next
  case (Cons r rs')
  have "disambiguate (Some c) rs cs = region_loop (r # rs') cs (Some x)"
    using len fnd wf Cons by (simp add: disambiguate_def country_loop_find)
  also have "\<dots> = Inr (case find (region_match r) cs of Some y \<Rightarrow> Some y | None \<Rightarrow> Some x)"
    by (rule region_loop_found [OF wf])
  finally show ?thesis
    using Cons by (simp split: option.splits)
qed

text \<open>
  Claim C1, as the code has it. For a list of more than one complete city, a resolved
  country and at least one city of that country: when no city matches any region found,
  \<open>disambiguate\<close> returns the first city of the country in scan order; when a city
  matches the first region found, the region rule replaces that choice by the first city
  matching that region.
\<close>

theorem disambiguate_country_then_first_region:
  assumes wf: "list_all complete_city cs" and len: "length cs > 1"
    and fnd: "find (country_match c) cs = Some x"
  shows "((\<forall>r \<in> set rs. find (region_match r) cs = None) \<longrightarrow>
            disambiguate (Some c) rs cs = Inr (Some x)) \<and>
         (\<forall>r rs' y. rs = r # rs' \<and> find (region_match r) cs = Some y \<longrightarrow>
            disambiguate (Some c) rs cs = Inr (Some y))"
  using disambiguate_with_country [OF wf len fnd, of rs]
  by (cases rs) auto

text \<open>
  Claim C5. A list of exactly one city is answered with that city, whatever the country
  and the regions are; so \<open>locate\<close> returns the city of a scan that gathered one city.
\<close>

theorem single_city_returned:
  "disambiguate c rs [city] = Inr (Some city) \<and>
   (populate_db L False db = (None, db1) \<and>
    locate_loop L (scan_start db1) places = Inr s \<and> cities s = [city]
      \<longrightarrow> locate L db places = Inr (Some city, sqlDB s))"
  by (simp add: disambiguate_def locate_def)

section \<open>The ISO code test: results\<close>

lemma isISO_US: "isISO ''US''"
  by (simp add: isISO_def iso_shape_def iso_char_def)

lemma isISO_Singapore: "\<not> isISO ''Singapore''"
  by (simp add: isISO_def iso_shape_def iso_char_def)

lemma isISO_without_newline:
  "s = [] \<or> last s \<noteq> CHR 0x0A \<Longrightarrow> isISO s = iso_shape s"
  by (auto simp: isISO_def)

lemma regions_for_name_routing:
  "regions_for_name L db nm =
     (case places_by_name L db nm (if isISO nm then ''regionIsoCode'' else ''regionName'') of
        Inl e \<Rightarrow> Inl e
      | Inr (regionRecords, db') \<Rightarrow>
          (case regions_of_records regionRecords [] of
             Inl e \<Rightarrow> Inl e
           | Inr rs \<Rightarrow> Inr (rs, db')))"
  by (simp add: regions_for_name_def)

text \<open>
  Claim C8, at the input on which the code leaves it: the three characters \<^verbatim>\<open>U\<close>, \<^verbatim>\<open>S\<close>
  and a newline are not one to three uppercase letters or digits, and \<open>isISO\<close> is true of
  them.
\<close>

theorem isISO_accepts_trailing_newline:
  "isISO [CHR ''U'', CHR ''S'', CHR 0x0A] \<and> \<not> iso_shape [CHR ''U'', CHR ''S'', CHR 0x0A]"
  by (simp add: isISO_def iso_shape_def iso_char_def)

section \<open>Misspelling correction: results\<close>

lemma correct_rows_find:
  "correct_rows rm rows nm =
     (case find (\<lambda>row. str_in nm (rm (fst row))) rows of None \<Rightarrow> nm | Some row \<Rightarrow> snd (snd row))"
  by (induction rows) simp_all

text \<open>
  Claim C3, as the code has it. The table is scanned in order and the name is replaced by
  the canonical name of the first row whose variant, with the non-ASCII characters
  removed, contains the name as a substring; the name itself is not normalised, and it is
  returned unchanged when no row contains it. \<open>getCountry\<close> puts the corrected name into
  the name lookup when the name is not ISO-shaped and correction is switched on.
\<close>

theorem misspelling_first_containing_row:
  "correct_country_misspelling L nm =
     (case matching_row L nm of None \<Rightarrow> nm | Some row \<Rightarrow> snd (snd row)) \<and>
   getCountry L nm =
     map_option Country_fromPyCountry
       (if isISO nm then countries_get_alpha_2 L nm
        else countries_get_name L
               (if correctMisspelling L then correct_country_misspelling L nm else nm))"
  by (simp add: correct_country_misspelling_def matching_row_def correct_rows_find
      getCountry_def Let_def map_option_case)

section \<open>Population: results\<close>

lemmas populate_defs =
  populate_db_def then_populate_def populate_Cities_def populate_Countries_def
  populate_Regions_def populate_Cities_FromWikidata_def create_WikidataCityLookup_def
  populate_PrefixTree_def populate_PrefixAmbiguities_def createTable_def view_rows_def
  getView_def Let_def

lemma populate_success_tables:
  "\<not> db_has_data L db \<Longrightarrow> populate_db L False db = (None, db') \<Longrightarrow> tables_exist L db'"
  by (auto simp: populate_defs tables_exist_def
      split: if_splits option.splits sum.splits prod.splits)

lemma populate_determined:
  "\<not> db_has_data L db \<Longrightarrow> populate_db L False db = (None, db') \<Longrightarrow>
   \<not> db_has_data L db2 \<Longrightarrow> \<exists>db2'. populate_db L False db2 = (None, db2')"
  by (auto simp: populate_defs
      split: if_splits option.splits sum.splits prod.splits)

lemma ingestions_populate_db:
  "ingestions (snd (populate_db L force db)) \<le> Suc (ingestions db)"
  by (auto simp: populate_defs split: if_splits option.splits sum.splits prod.splits)

text \<open>
  Claim C6. On a store that has data, \<open>populate_db\<close> without force changes nothing and
  raises nothing; so when the first of two calls leaves a store that has data, whether
  it returned or raised after the load, the second call is the identity and the two
  calls together ran the bulk load at most once.
\<close>

theorem populate_db_idempotent:
  "(db_has_data L db \<longrightarrow> populate_db L False db = (None, db)) \<and>
   (db_has_data L (snd (populate_db L False db)) \<longrightarrow>
      populate_db L False (snd (populate_db L False db)) =
        (None, snd (populate_db L False db)) \<and>
      ingestions (snd (populate_db L False (snd (populate_db L False db))))
        \<le> Suc (ingestions db))"
  using ingestions_populate_db [of L False db]
  by (simp add: populate_db_def)

text \<open>
  A store that is ready stays so: the population that \<open>locate\<close> and the lookups start
  with raises nothing and leaves the tables, on this store and on every store it leaves.
\<close>

lemma store_ready_populate:
  assumes "store_ready L db"
  shows "\<exists>db1. populate_db L False db = (None, db1) \<and> scan_ready L db1"
proof (cases "db_has_data L db")
  case True
  with assms show ?thesis
    by (simp add: store_ready_def populate_db_def scan_ready_def)
next
  case False
  from assms obtain db1 where p: "populate_db L False db = (None, db1)"
    by (cases "populate_db L False db") (auto simp: store_ready_def split: option.splits)
  have "heals L"
    unfolding heals_def
  proof (intro allI impI)
    fix db2 assume n: "\<not> db_has_data L db2"
    from populate_determined [OF False p n] obtain db2' where
      "populate_db L False db2 = (None, db2')" by blast
    with populate_success_tables [OF n this]
    show "\<exists>db'. populate_db L False db2 = (None, db') \<and> tables_exist L db'" by blast
  qed
  with populate_success_tables [OF False p] p show ?thesis
    by (simp add: scan_ready_def)
qed

lemma scan_ready_if:
  assumes t: "tables_exist L db" and r: "store_ready L db"
  shows "scan_ready L db"
proof (cases "db_has_data L db")
  case True
  with t show ?thesis by (simp add: scan_ready_def)
next
  case False
  from store_ready_populate [OF r] obtain db1 where
    p: "populate_db L False db = (None, db1)" by blast
  have "heals L"
    unfolding heals_def
  proof (intro allI impI)
    fix db2 assume n: "\<not> db_has_data L db2"
    from populate_determined [OF False p n] obtain db2' where
      "populate_db L False db2 = (None, db2')" by blast
    with populate_success_tables [OF n this]
    show "\<exists>db'. populate_db L False db2 = (None, db') \<and> tables_exist L db'" by blast
  qed
  with t show ?thesis by (simp add: scan_ready_def)
qed

section \<open>The token scan: results\<close>

lemma view_rows_columns: "view_rows db v = Inr rows \<Longrightarrow> list_all has_columns rows"
  by (auto simp: view_rows_def GeoLite2CityLookup_def WikidataCityLookup_def has_columns_def
      list_all_iff split: if_splits option.splits)

lemma GeoLite2_rows_no_figures:
  "view_rows db ''GeoLite2CityLookup'' = Inr rows \<Longrightarrow> rcd \<in> set rows \<Longrightarrow>
   map_of rcd ''population'' = None \<and> map_of rcd ''gdp'' = None"
  by (auto simp: view_rows_def GeoLite2CityLookup_def split: if_splits option.splits)

lemma City_fromGeoLite2_columns:
  assumes "has_columns rcd"
  shows "\<exists>city. City_fromGeoLite2 rcd = Inr city \<and> complete_city city \<and>
           (map_of rcd ''population'' = None \<and> map_of rcd ''gdp'' = None \<longrightarrow> no_figures city)"
  using assms
  by (auto simp: has_columns_def City_fromGeoLite2_def Region_fromGeoLite2_def
      Country_fromGeoLite2_def getitem_def setValue_def City_named_def complete_city_def
      no_figures_def Let_def)

lemma Region_fromGeoLite2_columns:
  "has_columns rcd \<Longrightarrow> \<exists>r. Region_fromGeoLite2 rcd = Inr r"
  by (auto simp: has_columns_def Region_fromGeoLite2_def getitem_def)

lemma cities_of_records_columns:
  "list_all has_columns rcds \<Longrightarrow>
   \<exists>cs. cities_of_records rcds acc = Inr (acc @ cs) \<and> list_all complete_city cs \<and>
     (list_all (\<lambda>rcd. map_of rcd ''population'' = None \<and> map_of rcd ''gdp'' = None) rcds
        \<longrightarrow> list_all no_figures cs)"
proof (induction rcds arbitrary: acc)
  case Nil
  then show ?case by simp
next
  case (Cons rcd rcds)
  from Cons.prems obtain city where c: "City_fromGeoLite2 rcd = Inr city" "complete_city city"
    "map_of rcd ''population'' = None \<and> map_of rcd ''gdp'' = None \<longrightarrow> no_figures city"
    using City_fromGeoLite2_columns [of rcd] by auto
  from Cons.prems have "list_all has_columns rcds" by simp
  from Cons.IH [OF this, of "acc @ [city]"] obtain cs where
    cs: "cities_of_records rcds (acc @ [city]) = Inr ((acc @ [city]) @ cs)"
      "list_all complete_city cs"
      "list_all (\<lambda>rcd. map_of rcd ''population'' = None \<and> map_of rcd ''gdp'' = None) rcds
        \<longrightarrow> list_all no_figures cs"
    by blast
  show ?case
    by (rule exI [of _ "city # cs"]) (use c cs in simp)
qed

lemma regions_of_records_columns:
  "list_all has_columns rcds \<Longrightarrow> \<exists>rs. regions_of_records rcds acc = Inr rs"
proof (induction rcds arbitrary: acc)
  case Nil
  then show ?case by simp
next
  case (Cons rcd rcds)
  then show ?case
    using Region_fromGeoLite2_columns [of rcd] by auto
qed

lemma places_by_name_rows:
  assumes "places_by_name L db n col = Inr (rcds, db')"
  shows "list_all has_columns rcds"
    and "\<not> useWikiData L \<Longrightarrow>
         list_all (\<lambda>rcd. map_of rcd ''population'' = None \<and> map_of rcd ''gdp'' = None) rcds"
proof -
  from assms obtain rows where rows: "view_rows db' (getView L) = Inr rows"
    and rcds: "rcds = filter (\<lambda>rcd. map_of rcd col = Some (PyStr n)) rows"
    by (auto simp: places_by_name_def select_where_def Let_def
        split: prod.splits option.splits sum.splits)
  from view_rows_columns [OF rows] rcds show "list_all has_columns rcds"
    by (simp add: list_all_iff)
  show "list_all (\<lambda>rcd. map_of rcd ''population'' = None \<and> map_of rcd ''gdp'' = None) rcds"
    if "\<not> useWikiData L"
    using that rows rcds GeoLite2_rows_no_figures [of db' rows]
    by (auto simp: getView_def list_all_iff)
qed

lemma cities_for_name_ok:
  assumes "cities_for_name L db n = Inr (cs, db')"
  shows "found_cities_ok L cs"
proof -
  from assms obtain rcds where p: "places_by_name L db n ''name'' = Inr (rcds, db')"
    and c: "cities_of_records rcds [] = Inr cs"
    by (auto simp: cities_for_name_def split: sum.splits prod.splits)
  from cities_of_records_columns [OF places_by_name_rows(1) [OF p], of "[]"] c
    places_by_name_rows(2) [OF p]
  show ?thesis
    by (auto simp: found_cities_ok_def)
qed

lemma cities_for_name_returns:
  assumes "places_by_name L db n ''name'' = Inr (rcds, db')"
  shows "\<exists>cs. cities_for_name L db n = Inr (cs, db')"
  using cities_of_records_columns [OF places_by_name_rows(1) [OF assms], of "[]"] assms
  by (auto simp: cities_for_name_def)

lemma regions_for_name_returns:
  assumes "places_by_name L db n (if isISO n then ''regionIsoCode'' else ''regionName'') =
             Inr (rcds, db')"
  shows "\<exists>rs. regions_for_name L db n = Inr (rs, db')"
  using regions_of_records_columns [OF places_by_name_rows(1) [OF assms], of "[]"] assms
  by (auto simp: regions_for_name_def split: if_splits)


lemma locate_body_props:
  fixes L s place
  defines "P \<equiv> isPrefix (sqlDB s) (prefix s @ place) (level s) = Inr True"
    and "A \<equiv> isAmbiguousPrefix (sqlDB s) (prefix s @ place) = Inr True"
  defines "cp \<equiv> (if P then prefix s @ place else place)"
  assumes body: "locate_body L s place = Inr s'"
  shows "level s' = level s + (if P then 1 else 0) \<and>
         prefix s' = (if P then prefix s @ place @ '' '' else []) \<and>
         lookups s' = lookups s @
           (if \<not> P \<or> A then [GetCountry cp, CitiesForName cp, RegionsForName cp] else []) \<and>
         (\<exists>cs. cities s' = cities s @ cs \<and> found_cities_ok L cs) \<and>
         (P \<and> \<not> A \<longrightarrow>
            cities s' = cities s \<and> regions s' = regions s \<and> country s' = country s \<and>
            sqlDB s' = sqlDB s)"
proof -
  obtain p where p: "isPrefix (sqlDB s) (prefix s @ place) (level s) = Inr p"
    using body by (auto simp: locate_body_def split: sum.splits)
  have P: "P = p" using p by (simp add: P_def)
  have ok0: "found_cities_ok L []" by (simp add: found_cities_ok_def)
  show ?thesis
  proof (cases p)
    case True
    then obtain a where a: "isAmbiguousPrefix (sqlDB s) (prefix s @ place) = Inr a"
      using body p by (auto simp: locate_body_def Let_def split: sum.splits)
    have A: "A = a" using a by (simp add: A_def)
    have cp: "cp = prefix s @ place" using True P by (simp add: cp_def)
    show ?thesis
    proof (cases a)
      case False
      with True body p a ok0 show ?thesis
        unfolding P A cp by (auto simp: locate_body_def Let_def)
    next
      case aT: True
      from body p a True aT obtain cs db1 rs db2 where
        c: "cities_for_name L (sqlDB s) (prefix s @ place) = Inr (cs, db1)"
        and r: "regions_for_name L db1 (prefix s @ place) = Inr (rs, db2)"
        by (auto simp: locate_body_def Let_def split: sum.splits option.splits prod.splits)
      from cities_for_name_ok [OF c] have ok: "found_cities_ok L cs" .
      from True aT body p a c r ok show ?thesis
        unfolding P A cp
        by (cases "getCountry L (prefix s @ place)") (auto simp: locate_body_def Let_def)
    qed
  next
    case False
    have cp: "cp = place" using False P by (simp add: cp_def)
    from body p False obtain cs db1 rs db2 where
      c: "cities_for_name L (sqlDB s) place = Inr (cs, db1)"
      and r: "regions_for_name L db1 place = Inr (rs, db2)"
      by (auto simp: locate_body_def Let_def split: sum.splits option.splits prod.splits)
    from cities_for_name_ok [OF c] have ok: "found_cities_ok L cs" .
    from False body p c r ok show ?thesis
      unfolding P cp
      by (cases "getCountry L place") (auto simp: locate_body_def Let_def)
  qed
qed

lemma places_by_name_returns:
  assumes "scan_ready L db"
  shows "\<exists>rcds db'. places_by_name L db n col = Inr (rcds, db') \<and> scan_ready L db'"
proof (cases "db_has_data L db")
  case True
  with assms show ?thesis
    by (auto simp: places_by_name_def select_where_def scan_ready_def tables_exist_def Let_def
        split: sum.splits)
next
  case False
  with assms have h: "heals L" by (simp add: scan_ready_def)
  with False obtain db' where p: "populate_db L False db = (None, db')" "tables_exist L db'"
    by (auto simp: heals_def)
  with h False show ?thesis
    by (auto simp: places_by_name_def select_where_def scan_ready_def tables_exist_def Let_def
        split: sum.splits)
qed

lemma locate_body_returns:
  assumes "scan_ready L (sqlDB s)"
  shows "\<exists>s'. locate_body L s place = Inr s' \<and> scan_ready L (sqlDB s')"
proof -
  from assms obtain p a where p: "isPrefix (sqlDB s) (prefix s @ place) (level s) = Inr p"
    and a: "isAmbiguousPrefix (sqlDB s) (prefix s @ place) = Inr a"
    by (auto simp: scan_ready_def tables_exist_def isPrefix_def isAmbiguousPrefix_def)
  let ?cp = "if p then prefix s @ place else place"
  obtain rc db1 where pc: "places_by_name L (sqlDB s) ?cp ''name'' = Inr (rc, db1)"
    and r1: "scan_ready L db1"
    using places_by_name_returns [OF assms] by blast
  obtain cs where c: "cities_for_name L (sqlDB s) ?cp = Inr (cs, db1)"
    using cities_for_name_returns [OF pc] by blast
  obtain rr db2 where pr:
    "places_by_name L db1 ?cp (if isISO ?cp then ''regionIsoCode'' else ''regionName'') =
       Inr (rr, db2)"
    and r2: "scan_ready L db2"
    using places_by_name_returns [OF r1] by blast
  obtain rs where r: "regions_for_name L db1 ?cp = Inr (rs, db2)"
    using regions_for_name_returns [OF pr] by blast
  show ?thesis
  proof (cases "\<not> p \<or> a")
    case True
    with p a c r r2 show ?thesis
      by (cases "getCountry L ?cp") (auto simp: locate_body_def Let_def)
  next
    case False
    with p a assms show ?thesis
      by (auto simp: locate_body_def Let_def)
  qed
qed

lemma locate_loop_returns:
  "scan_ready L (sqlDB s) \<Longrightarrow> \<exists>s'. locate_loop L s places = Inr s'"
proof (induction places arbitrary: s)
  case Nil
  then show ?case by simp
next
  case (Cons place places)
  from locate_body_returns [OF Cons.prems, of place] obtain s1 where
    "locate_body L s place = Inr s1" "scan_ready L (sqlDB s1)" by blast
  with Cons.IH [of s1] show ?case by auto
qed

lemma found_cities_ok_append:
  "found_cities_ok L xs \<Longrightarrow> found_cities_ok L ys \<Longrightarrow> found_cities_ok L (xs @ ys)"
  by (simp add: found_cities_ok_def)

lemma locate_loop_props:
  "locate_loop L s places = Inr s' \<Longrightarrow>
     level s' = level s + int (prefix_hits L s places) \<and>
     (\<exists>cs. cities s' = cities s @ cs \<and> found_cities_ok L cs)"
proof (induction places arbitrary: s)
  case Nil
  then show ?case by (simp add: found_cities_ok_def)
next
  case (Cons place places)
  from Cons.prems obtain s1 where b: "locate_body L s place = Inr s1"
    and l: "locate_loop L s1 places = Inr s'"
    by (auto split: sum.splits)
  from locate_body_props [OF b] obtain cs1 where s1:
    "level s1 = level s +
       (if isPrefix (sqlDB s) (prefix s @ place) (level s) = Inr True then 1 else 0)"
    "cities s1 = cities s @ cs1" "found_cities_ok L cs1"
    by blast
  from Cons.IH [OF l] obtain cs where s':
    "level s' = level s1 + int (prefix_hits L s1 places)"
    "cities s' = cities s1 @ cs" "found_cities_ok L cs"
    by blast
  have "cities s' = cities s @ (cs1 @ cs)" "found_cities_ok L (cs1 @ cs)"
    using s1 s' by (simp_all add: found_cities_ok_append)
  then show ?case
    using s1 s' b by auto
qed


lemma disambiguate_result:
  assumes wf: "list_all complete_city cs"
  shows "\<exists>r. disambiguate c rs cs = Inr r \<and> (r = None \<or> r \<in> Some ` set cs)"
proof (cases "length cs = 1")
  case True
  then show ?thesis
    by (cases cs) (simp_all add: disambiguate_def)
next
  case False
  let ?f = "case c of Some c' \<Rightarrow> if length cs > 1 then country_loop c' cs else Inr None
            | None \<Rightarrow> Inr None"
  have "\<exists>f. ?f = Inr f \<and> (f = None \<or> f \<in> Some ` set cs)"
    using wf by (auto simp: country_loop_find split: option.splits dest: find_Some_iff [THEN iffD1])
      (metis find_Some_iff nth_mem not_Some_eq image_eqI)
  then obtain f where f: "?f = Inr f" "f = None \<or> f \<in> Some ` set cs" by blast
  from region_loop_result [OF wf, of rs f] obtain r where
    r: "region_loop rs cs f = Inr r" "r = f \<or> r \<in> Some ` set cs" by blast
  show ?thesis
    using False f r by (auto simp: disambiguate_def)
qed



lemma locate_loop_ready:
  "tables_exist L (sqlDB s) \<and> store_ready L (sqlDB s) \<Longrightarrow> \<exists>s'. locate_loop L s places = Inr s'"
  using locate_loop_returns [of L s places] by (auto simp: scan_ready_if)



text \<open>
  Claim C9. Whenever the scan of a token list from a state returns, the level has not
  decreased and has grown by the number of tokens that were classified as prefix
  continuations; from the start of \<open>locate\<close> the level is one more than that number.
  Nothing in the statement depends on the pending prefix. On a scan state whose store
  has the tables and is ready, the scan returns.
\<close>

theorem level_counts_prefix_hits:
  "(\<forall>s'. locate_loop L s places = Inr s' \<longrightarrow>
      level s \<le> level s' \<and>
      level s' = level s + int (prefix_hits L s places) \<and>
      (level s = 1 \<longrightarrow> level s' = 1 + int (prefix_hits L s places))) \<and>
   (tables_exist L (sqlDB s) \<and> store_ready L (sqlDB s) \<longrightarrow>
      (\<exists>s'. locate_loop L s places = Inr s'))"
proof -
  have "level s \<le> level s' \<and>
      level s' = level s + int (prefix_hits L s places) \<and>
      (level s = 1 \<longrightarrow> level s' = 1 + int (prefix_hits L s places))"
    if "locate_loop L s places = Inr s'" for s'
    using locate_loop_props [OF that] by auto
  then show ?thesis
    using locate_loop_ready [of L s places] by simp
qed

text \<open>
  Claim C7. On a store that is ready, for every token list, \<open>locate\<close> returns: no
  exception of a query, of the population or of an attribute or key read is raised. The
  result is \<^verbatim>\<open>None\<close> or a city whose country and region are objects.
\<close>

theorem locate_city_or_None:
  assumes "store_ready L db"
  shows "\<exists>r db'. locate L db places = Inr (r, db') \<and>
     (r = None \<or> (\<exists>city. r = Some city \<and> City_country city \<noteq> None \<and> City_region city \<noteq> None))"
proof -
  from store_ready_populate [OF assms] obtain db1 where
    p: "populate_db L False db = (None, db1)" and r1: "scan_ready L db1" by blast
  from locate_loop_returns [of L "scan_start db1" places] r1 obtain s where
    s: "locate_loop L (scan_start db1) places = Inr s"
    by (auto simp: scan_start_def)
  from locate_loop_props [OF s] have wf: "list_all complete_city (cities s)"
    by (auto simp: scan_start_def found_cities_ok_def)
  from disambiguate_result [OF wf, of "country s" "regions s"] obtain r where
    r: "disambiguate (country s) (regions s) (cities s) = Inr r"
       "r = None \<or> r \<in> Some ` set (cities s)" by blast
  have "locate L db places = Inr (r, sqlDB s)"
    using p s r(1) by (simp add: locate_def)
  moreover have "r = None \<or> (\<exists>city. r = Some city \<and> City_country city \<noteq> None \<and> City_region city \<noteq> None)"
    using r(2) wf by (auto simp: list_all_iff complete_city_def)
  ultimately show ?thesis by blast
qed

text \<open>
  Claim C10. With \<open>useWikiData\<close> off, a city returned by \<open>locate\<close> has the attributes
  population and gdp, both assigned \<^verbatim>\<open>None\<close> by \<open>setValue\<close>.
\<close>

theorem geolite_city_no_figures:
  assumes "\<not> useWikiData L" and "locate L db places = Inr (Some city, db')"
  shows "City_population city = Some PyNone \<and> City_gdp city = Some PyNone"
proof -
  from assms(2) obtain db1 s r where
    s: "locate_loop L (scan_start db1) places = Inr s"
    and r: "disambiguate (country s) (regions s) (cities s) = Inr r" and rc: "r = Some city"
    by (auto simp: locate_def split: prod.splits option.splits sum.splits)
  from locate_loop_props [OF s] assms(1)
  have wf: "list_all complete_city (cities s)" and nf: "list_all no_figures (cities s)"
    by (auto simp: scan_start_def found_cities_ok_def)
  from disambiguate_result [OF wf, of "country s" "regions s"] r rc
  have "city \<in> set (cities s)" by auto
  with nf show ?thesis
    by (auto simp: list_all_iff no_figures_def)
qed

section \<open>The statements on the example data\<close>

lemma ex_locator_fields:
  "correctMisspelling ex_locator = True"
  "useWikiData ex_locator = False"
  "countries_get_alpha_2 ex_locator =
     (\<lambda>s. if s = ''US'' then Some \<lparr>pc_name = ''United States'', alpha_2 = ''US''\<rparr> else None)"
  "countries_get_name ex_locator =
     (\<lambda>s. if s = ''Germany'' then Some \<lparr>pc_name = ''Germany'', alpha_2 = ''DE''\<rparr> else None)"
  "remove_non_ascii ex_locator = ex_ascii"
  "ISO3166ErrorDictionary ex_locator = [(''Deutschland'', ''DE'', ''Germany'')]"
  "GeoLite2_City_Locations ex_locator = ex_rows"
  "PrefixTree_store ex_locator = (\<lambda>names. Inr ex_prefixes)"
  by (simp_all add: ex_locator_def)

lemma ex_db_fields:
  "cities_table ex_db = Some ex_rows"
  "prefixes_table ex_db = Some ex_prefixes"
  "ambiguous_table ex_db = Some [''San'']"
  "GeoLite2CityLookup_view ex_db = True"
  "ingestions ex_db = 1"
  by (simp_all add: ex_db_def)

lemma ex_rows_length: "length ex_rows = 10005"
  by (simp add: ex_rows_def)

lemma ex_has_data: "db_has_data ex_locator ex_db"
  by (simp add: db_has_data_def db_recordCount_def ex_locator_fields ex_db_fields ex_rows_length)

lemma ex_view: "view_rows ex_db (getView ex_locator) = Inr (GeoLite2CityLookup ex_rows)"
  by (simp add: view_rows_def getView_def ex_locator_fields ex_db_fields)

lemma ex_populate: "populate_db ex_locator False ex_db = (None, ex_db)"
  by (simp add: populate_db_def ex_has_data)

lemma ex_tables_exist: "tables_exist ex_locator ex_db"
  by (simp add: tables_exist_def ex_view ex_db_fields)

lemma ex_store_ready: "store_ready ex_locator ex_db"
  by (simp add: store_ready_def ex_populate ex_tables_exist)

lemma ex_select:
  "select_where ex_db (getView ex_locator) col nm =
     Inr (filter (\<lambda>rcd. map_of rcd col = Some (PyStr nm)) (GeoLite2CityLookup ex_rows))"
  by (simp add: select_where_def ex_view)

lemma ex_places:
  "places_by_name ex_locator ex_db nm col =
     Inr (filter (\<lambda>rcd. map_of rcd col = Some (PyStr nm)) (GeoLite2CityLookup ex_rows), ex_db)"
  by (simp add: places_by_name_def ex_has_data ex_select)

lemma ex_places_Vienna:
  "places_by_name ex_locator ex_db ''Vienna'' col =
     Inr (if col = ''name'' \<or> col = ''regionName'' then [d_Vienna] else [], ex_db)"
  by (simp add: ex_places GeoLite2CityLookup_def ex_rows_def ex_row_def d_Vienna_def o_def)

lemma ex_places_Xyz: "places_by_name ex_locator ex_db ''Xyz'' col = Inr ([], ex_db)"
  by (simp add: ex_places GeoLite2CityLookup_def ex_rows_def ex_row_def o_def)


lemma ex_cities_Vienna: "cities_for_name ex_locator ex_db ''Vienna'' = Inr ([ex_Vienna], ex_db)"
  by (simp add: cities_for_name_def ex_places_Vienna d_Vienna_def City_fromGeoLite2_def
      Region_fromGeoLite2_def Country_fromGeoLite2_def getitem_def setValue_def City_named_def
      ex_Vienna_def)

lemma ex_isISO_Vienna: "\<not> isISO ''Vienna''"
  by (simp add: isISO_def iso_shape_def)

lemma ex_regions_Vienna:
  "regions_for_name ex_locator ex_db ''Vienna'' =
     Inr ([\<lparr>Region_name = PyStr ''Vienna'', Region_iso = PyStr ''9''\<rparr>], ex_db)"
  by (simp add: regions_for_name_def ex_isISO_Vienna ex_places_Vienna d_Vienna_def
      Region_fromGeoLite2_def getitem_def)

lemma ex_country_Vienna: "getCountry ex_locator ''Vienna'' = None"
  by (simp add: getCountry_def ex_isISO_Vienna ex_locator_fields correct_country_misspelling_def
      ex_ascii_def)

lemma ex_isISO_Xyz: "\<not> isISO ''Xyz''"
  by (simp add: isISO_def iso_shape_def iso_char_def)

lemma ex_lookups_Xyz:
  "cities_for_name ex_locator ex_db ''Xyz'' = Inr ([], ex_db)"
  "regions_for_name ex_locator ex_db ''Xyz'' = Inr ([], ex_db)"
  "getCountry ex_locator ''Xyz'' = None"
  by (simp_all add: cities_for_name_def regions_for_name_def ex_places_Xyz ex_isISO_Xyz
      getCountry_def ex_locator_fields correct_country_misspelling_def ex_ascii_def)

lemma ex_queries:
  "isPrefix ex_db ''Vienna'' 1 = Inr False"
  "isPrefix ex_db ''Los'' 1 = Inr True" "isAmbiguousPrefix ex_db ''Los'' = Inr False"
  "isPrefix ex_db ''Los Xyz'' 2 = Inr False"
  "isPrefix ex_db ''San'' 1 = Inr True" "isAmbiguousPrefix ex_db ''San'' = Inr True"
  by (simp_all add: isPrefix_def isAmbiguousPrefix_def ex_db_fields ex_prefixes_def)

lemma ex_scan_fields:
  "level ex_scan_Los = 2" "prefix ex_scan_Los = ''Los ''" "sqlDB ex_scan_Los = ex_db"
  "lookups ex_scan_Los = []" "cities ex_scan_Los = []" "regions ex_scan_Los = []"
  "country ex_scan_Los = None"
  "country ex_scan_Los_Xyz = None" "cities ex_scan_Los_Xyz = []" "regions ex_scan_Los_Xyz = []"
  "level ex_scan_Los_Xyz = 2" "prefix ex_scan_Los_Xyz = []" "sqlDB ex_scan_Los_Xyz = ex_db"
  "lookups ex_scan_Los_Xyz = [GetCountry ''Xyz'', CitiesForName ''Xyz'', RegionsForName ''Xyz'']"
  "country ex_scan_Vienna = None" "cities ex_scan_Vienna = [ex_Vienna]"
  "regions ex_scan_Vienna = [\<lparr>Region_name = PyStr ''Vienna'', Region_iso = PyStr ''9''\<rparr>]"
  "sqlDB ex_scan_Vienna = ex_db"
  "level (scan_start db) = 1" "prefix (scan_start db) = []"
  "sqlDB (scan_start db) = db" "lookups (scan_start db) = []"
  "cities (scan_start db) = []" "regions (scan_start db) = []" "country (scan_start db) = None"
  by (simp_all add: ex_scan_Los_def ex_scan_Los_Xyz_def ex_scan_Vienna_def scan_start_def)

lemma ex_body_Vienna:
  "locate_body ex_locator (scan_start ex_db) ''Vienna'' = Inr ex_scan_Vienna"
  by (simp add: locate_body_def scan_start_def ex_queries ex_country_Vienna
      ex_cities_Vienna ex_regions_Vienna ex_scan_Vienna_def Let_def)

lemma ex_locate_Vienna: "locate ex_locator ex_db [''Vienna''] = Inr (Some ex_Vienna, ex_db)"
  by (simp add: locate_def ex_populate ex_body_Vienna disambiguate_def ex_scan_fields)

lemma ex_body_Los: "locate_body ex_locator (scan_start ex_db) ''Los'' = Inr ex_scan_Los"
  by (simp add: locate_body_def scan_start_def ex_queries ex_scan_Los_def Let_def)

lemma ex_body_Los_Xyz: "locate_body ex_locator ex_scan_Los ''Xyz'' = Inr ex_scan_Los_Xyz"
  by (simp add: locate_body_def ex_scan_Los_def ex_queries ex_lookups_Xyz ex_scan_Los_Xyz_def
      Let_def)

lemma ex_locate_Los_Xyz: "locate ex_locator ex_db [''Los'', ''Xyz''] = Inr (None, ex_db)"
  by (simp add: locate_def ex_populate ex_body_Los ex_body_Los_Xyz disambiguate_def
      ex_scan_fields)

lemma ex_unready_fields:
  "prefixes_table ex_unready_db = Some ex_prefixes" "ambiguous_table ex_unready_db = None"
  "db_has_data ex_locator ex_unready_db"
  by (simp_all add: ex_unready_db_def ex_db_fields db_has_data_def db_recordCount_def
      ex_locator_fields ex_rows_length)

lemma ex_locate_unready:
  "locate ex_locator ex_unready_db [''San''] = Inl (OperationalError ''no such table: ambiguous'')"
  by (simp add: locate_def populate_db_def ex_unready_fields locate_body_def ex_scan_fields
      isPrefix_def isAmbiguousPrefix_def ex_prefixes_def Let_def)


lemma str_values_PyStr: "str_values (map (\<lambda>x. PyStr (f x)) xs) = map f xs"
  by (induction xs) simp_all

lemma ex_names:
  "str_values (map (\<lambda>rcd. case map_of rcd ''name'' of Some v \<Rightarrow> v | None \<Rightarrow> PyNone)
                   (GeoLite2CityLookup ex_rows)) =
     [''Vienna'', ''Paris'', ''Paris'', ''San'', ''San Francisco''] @
     map (\<lambda>i. ''Los Angeles'') [0..<10000]"
  by (simp add: GeoLite2CityLookup_def ex_rows_def ex_row_def o_def str_values_PyStr)

lemma ex_ambiguous:
  "sort (remdups (filter (\<lambda>n. n \<in> fst ` set ex_prefixes)
     ([''Vienna'', ''Paris'', ''Paris'', ''San'', ''San Francisco''] @
      map (\<lambda>i. ''Los Angeles'') [0..<10000]))) = [''San'']"
  by (simp add: ex_prefixes_def o_def)

lemma ex_empty_no_data: "\<not> db_has_data ex_locator ex_empty_db"
  by (simp add: db_has_data_def db_recordCount_def ex_empty_db_def ex_locator_fields)

lemma ex_populate_empty: "populate_db ex_locator False ex_empty_db = (None, ex_db)"
proof -
  let ?db1 = "ex_empty_db\<lparr>cities_table := Some ex_rows, ingestions := Suc (ingestions ex_empty_db),
                GeoLite2CityLookup_view := True\<rparr>"
  let ?db2 = "?db1\<lparr>prefixes_table := Some ex_prefixes\<rparr>"
  have rows_ne: "take 100 ex_rows \<noteq> []"
    by (simp add: ex_rows_def)
  have c: "populate_Cities ex_locator ex_empty_db = (None, ?db1)"
    using rows_ne by (simp add: populate_Cities_def createTable_def ex_locator_fields Let_def)
  have v1: "view_rows ?db1 (getView ex_locator) = Inr (GeoLite2CityLookup ex_rows)"
    by (simp add: view_rows_def getView_def ex_locator_fields)
  have t: "populate_PrefixTree ex_locator ?db1 = (None, ?db2)"
    by (simp add: populate_PrefixTree_def v1 ex_locator_fields Let_def)
  have v2: "view_rows ?db2 (getView ex_locator) = Inr (GeoLite2CityLookup ex_rows)"
    by (simp add: view_rows_def getView_def ex_locator_fields)
  have a: "populate_PrefixAmbiguities ex_locator ?db2 =
             (None, ?db2\<lparr>ambiguous_table := Some [''San'']\<rparr>)"
    by (simp add: populate_PrefixAmbiguities_def v2 ex_names ex_ambiguous createTable_def
        Let_def del: append.simps filter.simps filter_append)
  have "?db2\<lparr>ambiguous_table := Some [''San'']\<rparr> = ex_db"
    by (simp add: ex_db_def ex_empty_db_def)
  with c t a show ?thesis
    by (simp add: populate_db_def ex_empty_no_data then_populate_def ex_locator_fields)
qed






theorem disambiguate_country_then_first_region_witness:
  "list_all complete_city [ex_Paris_AR, ex_Paris_TX] \<and>
   1 < length [ex_Paris_AR, ex_Paris_TX] \<and>
   find (country_match ex_US) [ex_Paris_AR, ex_Paris_TX] = Some ex_Paris_AR \<and>
   find (region_match ex_CA) [ex_Paris_AR, ex_Paris_TX] = None \<and>
   disambiguate (Some ex_US) [ex_CA] [ex_Paris_AR, ex_Paris_TX] = Inr (Some ex_Paris_AR) \<and>
   find (region_match ex_TX) [ex_Paris_AR, ex_Paris_TX] = Some ex_Paris_TX \<and>
   disambiguate (Some ex_US) [ex_TX, ex_CA] [ex_Paris_AR, ex_Paris_TX] = Inr (Some ex_Paris_TX)"
  using disambiguate_country_then_first_region
    [of "[ex_Paris_AR, ex_Paris_TX]" ex_US ex_Paris_AR "[ex_CA]"]
    disambiguate_country_then_first_region
    [of "[ex_Paris_AR, ex_Paris_TX]" ex_US ex_Paris_AR "[ex_TX, ex_CA]"]
  by (simp add: complete_city_def country_match_def region_match_def ex_Paris_AR_def
      ex_Paris_TX_def ex_US_def ex_TX_def ex_AR_def ex_CA_def)

theorem disambiguate_region_overrides_country:
  "list_all complete_city [ex_Paris_AR, ex_Paris_TX] \<and>
   1 < length [ex_Paris_AR, ex_Paris_TX] \<and>
   find (country_match ex_US) [ex_Paris_AR, ex_Paris_TX] = Some ex_Paris_AR \<and>
   disambiguate (Some ex_US) [ex_TX] [ex_Paris_AR, ex_Paris_TX] = Inr (Some ex_Paris_TX) \<and>
   ex_Paris_TX \<noteq> ex_Paris_AR"
  by (simp add: disambiguate_def complete_city_def country_match_def ex_Paris_AR_def
      ex_Paris_TX_def ex_US_def ex_TX_def ex_AR_def)




theorem level_counts_prefix_hits_witness:
  "tables_exist ex_locator ex_db \<and> store_ready ex_locator ex_db \<and>
   locate_loop ex_locator (scan_start ex_db) [''Los'', ''Xyz''] = Inr ex_scan_Los_Xyz \<and>
   level (scan_start ex_db) = 1 \<and>
   prefix_hits ex_locator (scan_start ex_db) [''Los'', ''Xyz''] = 1 \<and>
   level ex_scan_Los_Xyz = 2 \<and> prefix ex_scan_Los_Xyz = []"
  using level_counts_prefix_hits [of ex_locator "scan_start ex_db" "[''Los'', ''Xyz'']"]
  by (simp add: ex_body_Los ex_body_Los_Xyz ex_scan_fields ex_queries ex_tables_exist
      ex_store_ready)

theorem single_city_returned_witness:
  "disambiguate (Some ex_US) [ex_TX] [ex_Vienna] = Inr (Some ex_Vienna) \<and>
   populate_db ex_locator False ex_empty_db = (None, ex_db) \<and>
   locate_loop ex_locator (scan_start ex_db) [''Vienna''] = Inr ex_scan_Vienna \<and>
   cities ex_scan_Vienna = [ex_Vienna] \<and>
   locate ex_locator ex_empty_db [''Vienna''] = Inr (Some ex_Vienna, sqlDB ex_scan_Vienna)"
  using single_city_returned [of "Some ex_US" "[ex_TX]" ex_Vienna ex_locator ex_empty_db ex_db "[''Vienna'']"
      ex_scan_Vienna]
  by (simp add: ex_populate_empty ex_body_Vienna ex_scan_fields disambiguate_def)

theorem locate_city_or_None_witness:
  "store_ready ex_locator ex_db \<and>
   locate ex_locator ex_db [''Vienna''] = Inr (Some ex_Vienna, ex_db) \<and>
   City_country ex_Vienna \<noteq> None \<and> City_region ex_Vienna \<noteq> None \<and>
   locate ex_locator ex_db [''Los'', ''Xyz''] = Inr (None, ex_db) \<and>
   store_ready ex_locator ex_empty_db \<and>
   locate ex_locator ex_empty_db [''Los'', ''Xyz''] = Inr (None, ex_db)"
  using locate_city_or_None [of ex_locator ex_db "[''Vienna'']"] locate_city_or_None [of ex_locator ex_empty_db "[''Los'', ''Xyz'']"]
  by (simp add: ex_locate_Vienna ex_locate_Los_Xyz ex_Vienna_def ex_store_ready
      store_ready_def [of _ ex_empty_db] ex_populate_empty ex_tables_exist
      locate_def [of _ ex_empty_db] ex_body_Los ex_body_Los_Xyz disambiguate_def ex_scan_fields)

theorem geolite_city_no_figures_witness:
  "\<not> useWikiData ex_locator \<and>
   locate ex_locator ex_db [''Vienna''] = Inr (Some ex_Vienna, ex_db) \<and>
   City_population ex_Vienna = Some PyNone \<and> City_gdp ex_Vienna = Some PyNone"
  using geolite_city_no_figures [of ex_locator ex_db "[''Vienna'']" ex_Vienna ex_db]
  by (simp add: ex_locate_Vienna ex_locator_fields)

theorem misspelling_first_containing_row_witness:
  "matching_row ex_locator ''Deutschland'' = Some (''Deutschland'', ''DE'', ''Germany'') \<and>
   correct_country_misspelling ex_locator ''Deutschland'' = ''Germany'' \<and>
   correct_country_misspelling ex_locator ''France'' = ''France'' \<and>
   getCountry ex_locator ''Deutschland'' =
     Some \<lparr>Country_name = PyStr ''Germany'', Country_iso = PyStr ''DE''\<rparr>"
  using misspelling_first_containing_row [of ex_locator "''Deutschland''"]
    misspelling_first_containing_row [of ex_locator "''France''"]
  by (simp add: matching_row_def ex_locator_fields ex_ascii_def isISO_def iso_shape_def
      Country_fromPyCountry_def)

theorem misspelling_substring_counterexample:
  "correct_country_misspelling ex_locator ''land'' = ''Germany'' \<and>
   ex_ascii ''land'' = ''land'' \<and> ''land'' \<noteq> ''Deutschland'' \<and>
   map fst (ISO3166ErrorDictionary ex_locator) = [''Deutschland'']"
  by (simp add: correct_country_misspelling_def ex_locator_fields ex_ascii_def)

theorem populate_db_idempotent_witness:
  "db_has_data ex_locator ex_db \<and> populate_db ex_locator False ex_db = (None, ex_db) \<and>
   \<not> db_has_data ex_locator ex_empty_db \<and>
   populate_db ex_locator False ex_empty_db = (None, ex_db) \<and>
   db_has_data ex_locator (snd (populate_db ex_locator False ex_empty_db)) \<and>
   populate_db ex_locator False (snd (populate_db ex_locator False ex_empty_db)) =
     (None, snd (populate_db ex_locator False ex_empty_db)) \<and>
   ingestions (snd (populate_db ex_locator False (snd (populate_db ex_locator False ex_empty_db))))
     = 1"
  using populate_db_idempotent [of ex_locator ex_db] populate_db_idempotent [of ex_locator ex_empty_db]
  by (simp add: ex_has_data ex_populate ex_populate_empty ex_empty_no_data ex_db_fields)

end
